theory Spec2Isabelle
  imports Main "HOL-Library.Word"
begin

section \<open>The media graph and the application state\<close>

text \<open>
  The file \<^verbatim>\<open>src/commands/filtercommands.cpp\<close> holds the undo commands of the attached
  filter chain and the lookup \<^verbatim>\<open>findProducer\<close> that resolves a producer by its UUID.
  An \<^verbatim>\<open>Mlt::Producer\<close> is a handle on a reference-counted engine object: two handles may
  name the same object, and a handle may be invalid. A handle is therefore an address
  (\<open>addr option\<close>, \<open>None\<close> the invalid handle \<^verbatim>\<open>Mlt::Producer()\<close>), and the objects
  live in a store that the commands update in place.
\<close>

type_synonym QUuid = "128 word"

type_synonym addr = nat

type_synonym properties = "string \<rightharpoonup> string"

text \<open>
  An \<^verbatim>\<open>Mlt::Service\<close> attached to a producer as a filter: which service it is, its
  property set and its disabled flag.
\<close>

record service =
  service_id :: nat
  props :: properties
  disabled :: bool

text \<open>
  What the commands read and write of a producer object: the UUID that
  \<^verbatim>\<open>MLT.uuid\<close> reads from it, and its attached filters in attachment order
  (\<^verbatim>\<open>filter_count()\<close> is the length of the list, \<^verbatim>\<open>filter(i)\<close> its entry \<open>i\<close>).
\<close>

record producer_data =
  uuid :: QUuid
  filters :: "service list"

text \<open>
  The service types that \<^verbatim>\<open>Mlt::Parser\<close> tells apart: it has one pair of callbacks for
  each. The graph below a root is a tree of services; a node names the object at that place.
\<close>

datatype service_type =
  producer_type | playlist_type | tractor_type | multitrack_type
  | chain_type | filter_type | transition_type | link_type

datatype node = Node service_type addr "node list"

text \<open>
  The calls the commands make on collaborators that only observe: the normalisation pass
  \<^verbatim>\<open>MLT.adjustFilters(producer, index)\<close>, the signal \<^verbatim>\<open>filtersPasted(&producer)\<close> and
  \<^verbatim>\<open>FilterController::onUndoOrRedo(service)\<close> (the controller, and the service handle it
  is given: \<open>None\<close> when that handle is invalid).
\<close>

datatype event =
  AdjustFilters addr int
  | FiltersPasted addr
  | OnUndoOrRedo nat "service option"

text \<open>
  The globals \<^verbatim>\<open>findProducer\<close> reads: \<^verbatim>\<open>MAIN.isMultitrackValid()\<close>,
  \<^verbatim>\<open>MAIN.multitrack()\<close>, \<^verbatim>\<open>MAIN.playlist()\<close> (a pointer, \<open>None\<close> when null),
  \<^verbatim>\<open>MLT.isClip()\<close>, \<^verbatim>\<open>MLT.producer()\<close> and \<^verbatim>\<open>MLT.savedProducer()\<close> (handles built
  from pointers, \<open>None\<close> when invalid); the store of producer objects; and the trace of
  observer calls made so far. \<^verbatim>\<open>QT_NO_DEBUG\<close> says how the application was built: when the
  macro is defined, \<^verbatim>\<open>Q_ASSERT\<close> expands to nothing.
\<close>

record app =
  QT_NO_DEBUG :: bool
  isMultitrackValid :: bool
  multitrack :: node
  playlist :: "node option"
  isClip :: bool
  producer :: "node option"
  savedProducer :: "node option"
  heap :: "addr \<Rightarrow> producer_data"
  events :: "event list"

definition MLT_uuid :: "app \<Rightarrow> addr \<Rightarrow> QUuid" where
  "MLT_uuid s p = uuid (heap s p)"

definition filter_count :: "app \<Rightarrow> addr \<Rightarrow> int" where
  "filter_count s p = int (length (filters (heap s p)))"

text \<open>
  \<^verbatim>\<open>Mlt::Playlist::count()\<close>: the number of entries of the playlist, which are the
  children of its node.
\<close>

fun count :: "node \<Rightarrow> int" where
  "count (Node k a cs) = int (length cs)"

section \<open>FindProducerParser and findProducer\<close>

record FindProducerParser =
  m_uuid :: QUuid
  m_producer :: "addr option"

text \<open>
  \<^verbatim>\<open>on_start_producer\<close> compares the UUID of the visited object with the target; on a
  match it keeps the object and returns 1. The playlist, tractor and chain callbacks
  forward to it; every other callback returns 0 and leaves the parser as it is.
\<close>

definition on_start_producer :: "app \<Rightarrow> FindProducerParser \<Rightarrow> addr \<Rightarrow> FindProducerParser \<times> int" where
  "on_start_producer s p a =
     (if MLT_uuid s a = m_uuid p then (p\<lparr>m_producer := Some a\<rparr>, 1) else (p, 0))"

fun on_start :: "app \<Rightarrow> FindProducerParser \<Rightarrow> service_type \<Rightarrow> addr \<Rightarrow> FindProducerParser \<times> int" where
  "on_start s p filter_type a = (p, 0)"
| "on_start s p producer_type a = on_start_producer s p a"
| "on_start s p playlist_type a = on_start_producer s p a"
| "on_start s p tractor_type a = on_start_producer s p a"
| "on_start s p multitrack_type a = (p, 0)"
| "on_start s p transition_type a = (p, 0)"
| "on_start s p chain_type a = on_start_producer s p a"
| "on_start s p link_type a = (p, 0)"

definition on_end :: "FindProducerParser \<Rightarrow> service_type \<Rightarrow> addr \<Rightarrow> FindProducerParser \<times> int" where
  "on_end p k a = (p, 0)"

text \<open>
  Modelled from the spec: \<^verbatim>\<open>Mlt::Parser::start\<close>, the traversal engine of the MLT library,
  is not in the repository. Section 4.2 describes it as a depth-first pre-order traversal
  that aborts as soon as a callback signals a match: the callback of a service runs before
  its descendants are visited, the descendants are visited in order, and a non-zero result
  of any callback ends the whole traversal. The callbacks are the ones of the source.
  (\<^verbatim>\<open>on_start_track\<close> and \<^verbatim>\<open>on_end_track\<close> take no object and return 0.)
\<close>

fun start :: "app \<Rightarrow> FindProducerParser \<Rightarrow> node \<Rightarrow> FindProducerParser \<times> int"
  and start_children :: "app \<Rightarrow> FindProducerParser \<Rightarrow> node list \<Rightarrow> FindProducerParser \<times> int" where
  "start s p (Node k a cs) =
     (case on_start s p k a of
        (p1, e1) \<Rightarrow>
          if e1 \<noteq> 0 then (p1, e1)
          else (case start_children s p1 cs of
                  (p2, e2) \<Rightarrow> if e2 \<noteq> 0 then (p2, e2) else on_end p2 k a))"
| "start_children s p [] = (p, 0)"
| "start_children s p (c # cs) =
     (case start s p c of
        (p1, e1) \<Rightarrow> if e1 \<noteq> 0 then (p1, e1) else start_children s p1 cs)"

text \<open>
  \<^verbatim>\<open>findProducer\<close>: one parser object serves the three roots in turn, and the function
  returns as soon as the parser holds a valid producer.
\<close>

definition findProducer :: "app \<Rightarrow> QUuid \<Rightarrow> addr option" where
  "findProducer s u =
     (let p0 = \<lparr>m_uuid = u, m_producer = None\<rparr>;
          p1 = (if isMultitrackValid s then fst (start s p0 (multitrack s)) else p0)
      in if isMultitrackValid s \<and> m_producer p1 \<noteq> None then m_producer p1
         else
           (let nonempty = (case playlist s of None \<Rightarrow> False | Some pl \<Rightarrow> count pl > 0);
                p2 = (case playlist s of
                        None \<Rightarrow> p1
                      | Some pl \<Rightarrow> if count pl > 0 then fst (start s p1 pl) else p1)
            in if nonempty \<and> m_producer p2 \<noteq> None then m_producer p2
               else
                 (case (if isClip s then producer s else savedProducer s) of
                    None \<Rightarrow> None
                  | Some c \<Rightarrow>
                      (let p3 = fst (start s p2 c)
                       in if m_producer p3 \<noteq> None then m_producer p3 else None))))"

subsection \<open>The lookup as the specification words it\<close>

text \<open>
  The services of a root in depth-first pre-order, the roots that are tried in their
  priority order, and the first match of the first root that has one.
\<close>

fun preorder :: "node \<Rightarrow> (service_type \<times> addr) list"
  and preorder_list :: "node list \<Rightarrow> (service_type \<times> addr) list" where
  "preorder (Node k a cs) = (k, a) # preorder_list cs"
| "preorder_list [] = []"
| "preorder_list (c # cs) = preorder c @ preorder_list cs"

fun compared :: "service_type \<Rightarrow> bool" where
  "compared producer_type = True"
| "compared playlist_type = True"
| "compared tractor_type = True"
| "compared chain_type = True"
| "compared multitrack_type = False"
| "compared filter_type = False"
| "compared transition_type = False"
| "compared link_type = False"

definition graph_roots :: "app \<Rightarrow> node list" where
  "graph_roots s =
     (if isMultitrackValid s then [multitrack s] else [])
     @ (case playlist s of None \<Rightarrow> [] | Some pl \<Rightarrow> if count pl > 0 then [pl] else [])
     @ (case (if isClip s then producer s else savedProducer s) of None \<Rightarrow> [] | Some c \<Rightarrow> [c])"

fun locate :: "((service_type \<times> addr) \<Rightarrow> bool) \<Rightarrow> node list \<Rightarrow> addr option" where
  "locate is_match [] = None"
| "locate is_match (r # rs) =
     (case List.find is_match (preorder r) of
        Some (k, a) \<Rightarrow> Some a
      | None \<Rightarrow> locate is_match rs)"

text \<open>A match of the source: a service whose callback compares, carrying the target.\<close>

definition uuid_match :: "app \<Rightarrow> QUuid \<Rightarrow> (service_type \<times> addr) \<Rightarrow> bool" where
  "uuid_match s u x = (compared (fst x) \<and> MLT_uuid s (snd x) = u)"

text \<open>A match if every visited service were compared, whatever its type.\<close>

definition uuid_match_any :: "app \<Rightarrow> QUuid \<Rightarrow> (service_type \<times> addr) \<Rightarrow> bool" where
  "uuid_match_any s u x = (MLT_uuid s (snd x) = u)"

section \<open>Collaborators of the commands\<close>

text \<open>
  The engine functions the commands call and the repository does not define in this file
  are parameters: the per-filter normalisation that \<^verbatim>\<open>MLT.adjustFilters\<close> applies (it
  yields the filter's new property set), the \<^verbatim>\<open>xml-string\<close> producer constructor (\<open>None\<close>
  when the producer it builds is invalid, else the filters attached to it),
  \<^verbatim>\<open>MLT.pasteFilters\<close> (from the target's filters and the source's filters to the target's
  new filters) and \<^verbatim>\<open>Mlt::Properties::get_int\<close>.
\<close>

record env =
  adjustFilter :: "service \<Rightarrow> properties"
  xml_producer :: "string \<Rightarrow> service list option"
  pasteFilters :: "service list \<Rightarrow> service list \<Rightarrow> service list"
  get_int :: "service \<Rightarrow> string \<Rightarrow> int"

text \<open>
  Modelled from the spec: the header that defines \<^verbatim>\<open>kShotcutHiddenProperty\<close>, the name of
  the property that hides a filter from the chain's undo, is not in the sources.
\<close>

definition kShotcutHiddenProperty :: string where
  "kShotcutHiddenProperty = ''shotcut:hidden''"

text \<open>
  The ways a call ends without a result. Where \<^verbatim>\<open>Q_ASSERT\<close> is checked (\<^verbatim>\<open>QT_NO_DEBUG\<close> not
  defined), \<^verbatim>\<open>Q_ASSERT(producer.is_valid())\<close> and \<^verbatim>\<open>Q_ASSERT(m_service.is_valid())\<close> abort the
  program when they fail. Where it is not, the call goes on: \<^verbatim>\<open>MoveCommand\<close>,
  \<^verbatim>\<open>DisableCommand\<close> and \<^verbatim>\<open>UndoParameterCommand\<close> then test \<^verbatim>\<open>producer.is_valid()\<close> themselves
  and skip their work, while \<^verbatim>\<open>AddCommand\<close>, \<^verbatim>\<open>RemoveCommand\<close> and \<^verbatim>\<open>PasteCommand\<close> hand the
  invalid producer (or service) to the filters model, the engine or a signal. The sources
  do not say what those do with an invalid handle, so the model ends the call there with
  an outcome of its own, \<open>InvalidHandleUsed\<close>. A read of a \<^verbatim>\<open>QList\<close> outside its range
  (\<^verbatim>\<open>front()\<close> of an empty list, an index past the end) is a failing assertion of the list
  where assertions are checked and undefined where they are not: it ends the call in
  either build.
\<close>

datatype failure = InvalidProducer | InvalidService | IndexOutOfRange | InvalidHandleUsed

definition set_filters :: "app \<Rightarrow> addr \<Rightarrow> service list \<Rightarrow> app" where
  "set_filters s p fs = s\<lparr>heap := (heap s)(p := (heap s p)\<lparr>filters := fs\<rparr>)\<rparr>"

definition emit :: "app \<Rightarrow> event \<Rightarrow> app" where
  "emit s ev = s\<lparr>events := events s @ [ev]\<rparr>"

subsection \<open>The attached filters model\<close>

text \<open>
  Modelled from the spec: \<^verbatim>\<open>AttachedFiltersModel\<close> is not in the sources. Sections 4.3 and
  6 give its contract: \<^verbatim>\<open>doAddService(node, filter, index)\<close> inserts the filter at the
  attachment index, \<^verbatim>\<open>doRemoveService(node, index)\<close> detaches the filter at the index,
  \<^verbatim>\<open>doMoveService(node, from, to)\<close> relocates a filter from one index to another,
  \<^verbatim>\<open>doSetDisabled(node, index, bool)\<close> sets the disabled flag of the filter at the index and
  \<^verbatim>\<open>doGetService(node, index)\<close> is the filter at the index. Each works on the filters of
  the producer it is given, passed here as that list. The spec does not say what an index
  outside the chain does: the model leaves the chain as it is there, hands out no service,
  and the theorems about rows assume them in range.
\<close>

definition doAddService :: "service list \<Rightarrow> service \<Rightarrow> int \<Rightarrow> service list" where
  "doAddService fs sv row =
     (if 0 \<le> row \<and> nat row \<le> length fs then take (nat row) fs @ sv # drop (nat row) fs
      else fs)"

definition doRemoveService :: "service list \<Rightarrow> int \<Rightarrow> service list" where
  "doRemoveService fs row =
     (if 0 \<le> row \<and> nat row < length fs then take (nat row) fs @ drop (Suc (nat row)) fs
      else fs)"

definition doMoveService :: "service list \<Rightarrow> int \<Rightarrow> int \<Rightarrow> service list" where
  "doMoveService fs fromRow toRow =
     (if 0 \<le> fromRow \<and> nat fromRow < length fs \<and> 0 \<le> toRow \<and> nat toRow < length fs
      then doAddService (doRemoveService fs fromRow) (fs ! nat fromRow) toRow
      else fs)"

definition doSetDisabled :: "service list \<Rightarrow> int \<Rightarrow> bool \<Rightarrow> service list" where
  "doSetDisabled fs row d =
     (if 0 \<le> row \<and> nat row < length fs then fs[nat row := (fs ! nat row)\<lparr>disabled := d\<rparr>]
      else fs)"

definition doGetService :: "service list \<Rightarrow> int \<Rightarrow> service option" where
  "doGetService fs row =
     (if 0 \<le> row \<and> nat row < length fs then Some (fs ! nat row) else None)"

text \<open>
  Modelled from the spec: \<^verbatim>\<open>MLT.adjustFilters(producer, index)\<close> is not in the sources.
  Section 4.3 calls it a post-insert adjustment pass over all filters from an index
  onward: every filter at that index or later gets the property set the engine's
  normalisation gives it; which filters are attached, and where, is not changed.
\<close>

definition adjustFilters :: "env \<Rightarrow> service list \<Rightarrow> int \<Rightarrow> service list" where
  "adjustFilters e fs index =
     take (nat index) fs @ map (\<lambda>f. f\<lparr>props := adjustFilter e f\<rparr>) (drop (nat index) fs)"

text \<open>
  Modelled from the spec: \<^verbatim>\<open>Mlt::Properties::inherit\<close> belongs to the MLT library. The
  commands use it to overwrite a service's properties with a snapshot: every property of
  the snapshot is set on the receiver.
\<close>

definition inherit :: "properties \<Rightarrow> properties \<Rightarrow> properties" where
  "inherit this that = this ++ that"

section \<open>The commands\<close>

text \<open>
  Every command is a \<^verbatim>\<open>QUndoCommand\<close>, which holds the display text and whose \<^verbatim>\<open>id()\<close>
  tells the command classes apart (the header that fixes the numbers is not in the
  sources, so the identifier is a field). The commands are given by their fields as the
  constructors and earlier calls leave them; \<^verbatim>\<open>LOG_DEBUG\<close> output is not modelled.
\<close>

record QUndoCommand =
  cmd_text :: string
  cmd_id :: int

subsection \<open>AddCommand\<close>

text \<open>
  The constructor pushes one row and one service, and \<^verbatim>\<open>mergeWith\<close> only appends one of
  each: the two lists of a command have the same length and are never empty, so the read
  of \<^verbatim>\<open>m_rows[0]\<close> in the log lines is within range.
\<close>

datatype AddType = AddSingle | AddSet | AddSetLast

record AddCommand = QUndoCommand +
  m_producer :: "addr option"
  m_producerUuid :: QUuid
  m_type :: AddType
  m_rows :: "int list"
  m_services :: "service list"

text \<open>
  The loop of \<^verbatim>\<open>redo\<close>: for \<open>i\<close> from 0 up to \<^verbatim>\<open>m_rows.size()\<close>, add \<^verbatim>\<open>m_services[i]\<close> at
  \<^verbatim>\<open>m_rows[i]\<close>. Reading \<^verbatim>\<open>m_services\<close> past its end stops the command.
\<close>

fun AddCommand_redo_loop :: "service list \<Rightarrow> int list \<Rightarrow> service list \<Rightarrow> failure + service list" where
  "AddCommand_redo_loop fs [] svs = Inr fs"
| "AddCommand_redo_loop fs (r # rs) [] = Inl IndexOutOfRange"
| "AddCommand_redo_loop fs (r # rs) (sv # svs) = AddCommand_redo_loop (doAddService fs sv r) rs svs"

definition AddCommand_redo :: "env \<Rightarrow> AddCommand \<Rightarrow> app \<Rightarrow> failure + (AddCommand \<times> app)" where
  "AddCommand_redo e c s =
     (let target = (case AddCommand.m_producer c of
                      Some p \<Rightarrow> Some p
                    | None \<Rightarrow> findProducer s (AddCommand.m_producerUuid c))
      in if \<not> QT_NO_DEBUG s \<and> target = None then Inl InvalidProducer
         else
           case target of
             None \<Rightarrow> Inl InvalidHandleUsed
           | Some p \<Rightarrow>
             (let adjustFrom = filter_count s p
              in case AddCommand_redo_loop (filters (heap s p)) (m_rows c) (m_services c) of
                   Inl f \<Rightarrow> Inl f
                 | Inr fs \<Rightarrow>
                     Inr (c\<lparr>AddCommand.m_producer := None\<rparr>,
                          if m_type c = AddSetLast
                          then emit (set_filters s p (adjustFilters e fs adjustFrom))
                                 (AdjustFilters p adjustFrom)
                          else set_filters s p fs)))"

text \<open>
  The loop of \<^verbatim>\<open>undo\<close> runs \<open>i\<close> from \<^verbatim>\<open>m_rows.size() - 1\<close> down to 0: the rows after the
  first are removed before the first is.
\<close>

fun AddCommand_undo_loop :: "service list \<Rightarrow> int list \<Rightarrow> service list" where
  "AddCommand_undo_loop fs [] = fs"
| "AddCommand_undo_loop fs (r # rs) = doRemoveService (AddCommand_undo_loop fs rs) r"

definition AddCommand_undo :: "AddCommand \<Rightarrow> app \<Rightarrow> failure + app" where
  "AddCommand_undo c s =
     (let target = findProducer s (AddCommand.m_producerUuid c)
      in if \<not> QT_NO_DEBUG s \<and> target = None then Inl InvalidProducer
         else
           case target of
             None \<Rightarrow> Inl InvalidHandleUsed
           | Some p \<Rightarrow>
               Inr (set_filters s p (AddCommand_undo_loop (filters (heap s p)) (m_rows c))))"

text \<open>
  \<^verbatim>\<open>mergeWith\<close> returns whether the merge was accepted, this command and the other command
  (which the source reaches through a \<^verbatim>\<open>const_cast\<close> and only reads). \<open>None\<close> is the null
  pointer.
\<close>

definition AddCommand_mergeWith ::
  "AddCommand \<Rightarrow> AddCommand option \<Rightarrow> failure + (bool \<times> AddCommand \<times> AddCommand option)" where
  "AddCommand_mergeWith this other =
     (case other of
        None \<Rightarrow> Inr (False, this, other)
      | Some that \<Rightarrow>
          if cmd_id that \<noteq> cmd_id this then Inr (False, this, other)
          else if m_type this \<noteq> AddSet \<or> \<not> (m_type that = AddSet \<or> m_type that = AddSetLast)
          then Inr (False, this, other)
          else
            (case m_rows that of
               [] \<Rightarrow> Inl IndexOutOfRange
             | r # rs \<Rightarrow>
                 (case m_services that of
                    [] \<Rightarrow> Inl IndexOutOfRange
                  | sv # svs \<Rightarrow>
                      Inr (True,
                           this\<lparr>m_type := m_type that,
                                m_rows := m_rows this @ [r],
                                m_services := m_services this @ [sv]\<rparr>,
                           other))))"





definition inserted :: "service list \<Rightarrow> int list \<Rightarrow> service list \<Rightarrow> service list" where
  "inserted fs rs svs = foldl (\<lambda>fs (r, sv). doAddService fs sv r) fs (zip rs svs)"

subsection \<open>RemoveCommand\<close>

record RemoveCommand = QUndoCommand +
  m_row :: int
  m_producer :: "addr option"
  m_producerUuid :: QUuid
  m_service :: "service option"

definition RemoveCommand_redo :: "RemoveCommand \<Rightarrow> app \<Rightarrow> failure + (RemoveCommand \<times> app)" where
  "RemoveCommand_redo c s =
     (let target = (case RemoveCommand.m_producer c of
                      Some p \<Rightarrow> Some p
                    | None \<Rightarrow> findProducer s (RemoveCommand.m_producerUuid c))
      in if \<not> QT_NO_DEBUG s \<and> target = None then Inl InvalidProducer
         else
           case target of
             None \<Rightarrow> Inl InvalidHandleUsed
           | Some p \<Rightarrow>
             Inr (c\<lparr>RemoveCommand.m_producer := None\<rparr>,
                  set_filters s p (doRemoveService (filters (heap s p)) (RemoveCommand.m_row c))))"

definition RemoveCommand_undo :: "RemoveCommand \<Rightarrow> app \<Rightarrow> failure + app" where
  "RemoveCommand_undo c s =
     (if \<not> QT_NO_DEBUG s \<and> m_service c = None then Inl InvalidService
      else
        (let target = findProducer s (RemoveCommand.m_producerUuid c)
         in if \<not> QT_NO_DEBUG s \<and> target = None then Inl InvalidProducer
            else
              case target of
                None \<Rightarrow> Inl InvalidHandleUsed
              | Some p \<Rightarrow>
                  (case m_service c of
                     None \<Rightarrow> Inl InvalidHandleUsed
                   | Some sv \<Rightarrow>
                       Inr (set_filters s p
                              (doAddService (filters (heap s p)) sv (RemoveCommand.m_row c))))))"

subsection \<open>MoveCommand\<close>

text \<open>
  After the assertion, \<^verbatim>\<open>redo\<close> and \<^verbatim>\<open>undo\<close> test \<^verbatim>\<open>producer.is_valid()\<close> themselves: where
  the assertion is compiled out and the target does not resolve, they skip
  \<^verbatim>\<open>doMoveService\<close> and return. \<^verbatim>\<open>DisableCommand\<close> and \<^verbatim>\<open>UndoParameterCommand\<close> below do the
  same.
\<close>

record MoveCommand = QUndoCommand +
  m_fromRow :: int
  m_toRow :: int
  m_producer :: "addr option"
  m_producerUuid :: QUuid

definition MoveCommand_redo :: "MoveCommand \<Rightarrow> app \<Rightarrow> failure + (MoveCommand \<times> app)" where
  "MoveCommand_redo c s =
     (let target = (case MoveCommand.m_producer c of
                      Some p \<Rightarrow> Some p
                    | None \<Rightarrow> findProducer s (MoveCommand.m_producerUuid c))
      in if \<not> QT_NO_DEBUG s \<and> target = None then Inl InvalidProducer
         else
           Inr (c\<lparr>MoveCommand.m_producer := None\<rparr>,
                case target of
                  None \<Rightarrow> s
                | Some p \<Rightarrow>
                    set_filters s p (doMoveService (filters (heap s p)) (m_fromRow c) (m_toRow c))))"

definition MoveCommand_undo :: "MoveCommand \<Rightarrow> app \<Rightarrow> failure + app" where
  "MoveCommand_undo c s =
     (let target = findProducer s (MoveCommand.m_producerUuid c)
      in if \<not> QT_NO_DEBUG s \<and> target = None then Inl InvalidProducer
         else
           Inr (case target of
                  None \<Rightarrow> s
                | Some p \<Rightarrow>
                    set_filters s p (doMoveService (filters (heap s p)) (m_toRow c) (m_fromRow c))))"

subsection \<open>DisableCommand\<close>

record DisableCommand = QUndoCommand +
  m_row :: int
  m_producer :: "addr option"
  m_producerUuid :: QUuid
  m_disabled :: bool

definition DisableCommand_redo :: "DisableCommand \<Rightarrow> app \<Rightarrow> failure + (DisableCommand \<times> app)" where
  "DisableCommand_redo c s =
     (let target = (case DisableCommand.m_producer c of
                      Some p \<Rightarrow> Some p
                    | None \<Rightarrow> findProducer s (DisableCommand.m_producerUuid c))
      in if \<not> QT_NO_DEBUG s \<and> target = None then Inl InvalidProducer
         else
           Inr (c\<lparr>DisableCommand.m_producer := None\<rparr>,
                case target of
                  None \<Rightarrow> s
                | Some p \<Rightarrow>
                    set_filters s p
                      (doSetDisabled (filters (heap s p)) (DisableCommand.m_row c) (m_disabled c))))"

definition DisableCommand_undo :: "DisableCommand \<Rightarrow> app \<Rightarrow> failure + app" where
  "DisableCommand_undo c s =
     (let target = findProducer s (DisableCommand.m_producerUuid c)
      in if \<not> QT_NO_DEBUG s \<and> target = None then Inl InvalidProducer
         else
           Inr (case target of
                  None \<Rightarrow> s
                | Some p \<Rightarrow>
                    set_filters s p
                      (doSetDisabled (filters (heap s p)) (DisableCommand.m_row c)
                         (\<not> m_disabled c))))"

subsection \<open>PasteCommand\<close>

record PasteCommand = QUndoCommand +
  m_xml :: string
  m_beforeXml :: string
  m_producerUuid :: QUuid

definition PasteCommand_redo :: "env \<Rightarrow> PasteCommand \<Rightarrow> app \<Rightarrow> failure + app" where
  "PasteCommand_redo e c s =
     (let target = findProducer s (PasteCommand.m_producerUuid c)
      in if \<not> QT_NO_DEBUG s \<and> target = None then Inl InvalidProducer
         else
           case target of
             None \<Rightarrow> Inl InvalidHandleUsed
           | Some p \<Rightarrow>
               (let filtersProducer = xml_producer e (m_xml c);
               s1 = (case filtersProducer of
                       None \<Rightarrow> s
                     | Some src \<Rightarrow>
                         if int (length src) > 0
                         then set_filters s p (pasteFilters e (filters (heap s p)) src)
                         else s)
           in Inr (emit s1 (FiltersPasted p))))"

text \<open>
  The first loop of \<^verbatim>\<open>undo\<close>: the filter at \<open>i\<close> is detached when neither \<^verbatim>\<open>_loader\<close> nor the
  hidden property reads non-zero, and then \<open>i\<close> stays (\<^verbatim>\<open>i--\<close> before the loop's \<^verbatim>\<open>i++\<close>);
  otherwise \<open>i\<close> advances. \<^verbatim>\<open>producer.filter(i)\<close> within the count is a valid filter, and
  \<^verbatim>\<open>detach\<close> removes that filter from the chain.
\<close>

definition detachable :: "env \<Rightarrow> service \<Rightarrow> bool" where
  "detachable e f = (get_int e f ''_loader'' = 0 \<and> get_int e f kShotcutHiddenProperty = 0)"

function PasteCommand_undo_loop :: "env \<Rightarrow> nat \<Rightarrow> service list \<Rightarrow> service list" where
  "PasteCommand_undo_loop e i fs =
     (if i < length fs
      then (if detachable e (fs ! i)
            then PasteCommand_undo_loop e i (remove1 (fs ! i) fs)
            else PasteCommand_undo_loop e (i + 1) fs)
      else fs)"
  by pat_completeness auto
termination
  by (relation "measure (\<lambda>(e, i, fs). 2 * length fs - i)") (auto simp: length_remove1)

declare PasteCommand_undo_loop.simps [simp del]

definition PasteCommand_undo :: "env \<Rightarrow> PasteCommand \<Rightarrow> app \<Rightarrow> failure + app" where
  "PasteCommand_undo e c s =
     (let target = findProducer s (PasteCommand.m_producerUuid c)
      in if \<not> QT_NO_DEBUG s \<and> target = None then Inl InvalidProducer
         else
           case target of
             None \<Rightarrow> Inl InvalidHandleUsed
           | Some p \<Rightarrow>
               (let kept = PasteCommand_undo_loop e 0 (filters (heap s p));
               filtersProducer = xml_producer e (m_beforeXml c);
               fs = (case filtersProducer of
                       None \<Rightarrow> kept
                     | Some src \<Rightarrow> if int (length src) > 0 then pasteFilters e kept src else kept)
           in Inr (emit (set_filters s p fs) (FiltersPasted p))))"

subsection \<open>UndoParameterCommand\<close>

text \<open>\<^verbatim>\<open>m_filterController\<close> is a pointer: \<open>None\<close> when null, else the controller.\<close>

record UndoParameterCommand = QUndoCommand +
  m_filterController :: "nat option"
  m_row :: int
  m_producerUuid :: QUuid
  m_firstRedo :: bool
  m_before :: properties
  m_after :: properties

text \<open>
  The body shared by \<^verbatim>\<open>redo\<close> (after the first) and \<^verbatim>\<open>undo\<close>: get the service at the row
  of the producer, inherit the snapshot, tell the controller. The service handle the model
  hands out for a row outside the chain is invalid, and inheriting into it changes nothing.
\<close>

definition restore_snapshot :: "nat \<Rightarrow> addr \<Rightarrow> int \<Rightarrow> properties \<Rightarrow> app \<Rightarrow> app" where
  "restore_snapshot controller p row snapshot s =
     (case doGetService (filters (heap s p)) row of
        None \<Rightarrow> emit s (OnUndoOrRedo controller None)
      | Some sv \<Rightarrow>
          (let sv1 = sv\<lparr>props := inherit (props sv) snapshot\<rparr>
           in emit (set_filters s p ((filters (heap s p))[nat row := sv1]))
                (OnUndoOrRedo controller (Some sv1))))"

definition UndoParameterCommand_redo ::
  "UndoParameterCommand \<Rightarrow> app \<Rightarrow> failure + (UndoParameterCommand \<times> app)" where
  "UndoParameterCommand_redo c s =
     (if m_firstRedo c then Inr (c\<lparr>m_firstRedo := False\<rparr>, s)
      else
        (let target = findProducer s (UndoParameterCommand.m_producerUuid c)
         in if \<not> QT_NO_DEBUG s \<and> target = None then Inl InvalidProducer
            else
              case target of
                None \<Rightarrow> Inr (c, s)
              | Some p \<Rightarrow>
                  (case m_filterController c of
                     None \<Rightarrow> Inr (c, s)
                   | Some controller \<Rightarrow>
                       Inr (c, restore_snapshot controller p (UndoParameterCommand.m_row c)
                                 (m_after c) s))))"

definition UndoParameterCommand_undo :: "UndoParameterCommand \<Rightarrow> app \<Rightarrow> failure + app" where
  "UndoParameterCommand_undo c s =
     (let target = findProducer s (UndoParameterCommand.m_producerUuid c)
      in if \<not> QT_NO_DEBUG s \<and> target = None then Inl InvalidProducer
         else
           case target of
             None \<Rightarrow> Inr s
           | Some p \<Rightarrow>
               (case m_filterController c of
                  None \<Rightarrow> Inr s
                | Some controller \<Rightarrow>
                    Inr (restore_snapshot controller p (UndoParameterCommand.m_row c)
                           (m_before c) s)))"

definition UndoParameterCommand_mergeWith ::
  "UndoParameterCommand \<Rightarrow> UndoParameterCommand \<Rightarrow> bool \<times> UndoParameterCommand" where
  "UndoParameterCommand_mergeWith this that =
     (if cmd_id that \<noteq> cmd_id this
         \<or> UndoParameterCommand.m_row that \<noteq> UndoParameterCommand.m_row this
         \<or> UndoParameterCommand.m_producerUuid that \<noteq> UndoParameterCommand.m_producerUuid this
         \<or> cmd_text that \<noteq> cmd_text this
      then (False, this)
      else (True, this\<lparr>m_after := m_after that\<rparr>))"

section \<open>Example data\<close>

text \<open>
  A project whose timeline is open, with two clips in the bin and a clip in the player.
  The multitrack object inside the timeline carries the identifier 20, the timeline clip
  40, the second bin entry (a chain) 70 and the player's clip 80.
\<close>

definition example_graph :: app where
  "example_graph =
     \<lparr>QT_NO_DEBUG = False,
      isMultitrackValid = True,
      multitrack =
        Node tractor_type 1 [Node multitrack_type 2 [Node playlist_type 3 [Node producer_type 4 []]]],
      playlist = Some (Node playlist_type 5 [Node producer_type 6 [], Node chain_type 7 []]),
      isClip = True,
      producer = Some (Node producer_type 8 []),
      savedProducer = None,
      heap = (\<lambda>a. \<lparr>uuid = (if a = 2 then 20 else if a = 4 then 40
                              else if a = 7 then 70 else if a = 8 then 80 else 0),
                     filters = []\<rparr>),
      events = []\<rparr>"


definition blur :: service where
  "blur = \<lparr>service_id = 10, props = [''radius'' \<mapsto> ''2''], disabled = False\<rparr>"

definition crop :: service where
  "crop = \<lparr>service_id = 11, props = [''left'' \<mapsto> ''0''], disabled = True\<rparr>"

definition gain :: service where
  "gain = \<lparr>service_id = 12, props = [''level'' \<mapsto> ''1''], disabled = False\<rparr>"

definition example_clip :: app where
  "example_clip =
     \<lparr>QT_NO_DEBUG = False,
      isMultitrackValid = False,
      multitrack = Node tractor_type 0 [],
      playlist = None,
      isClip = True,
      producer = Some (Node producer_type 7 []),
      savedProducer = None,
      heap = (\<lambda>a. if a = 7 then \<lparr>uuid = 5, filters = [blur, crop]\<rparr>
                     else \<lparr>uuid = 0, filters = []\<rparr>),
      events = []\<rparr>"


definition add_set :: "AddType \<Rightarrow> int \<Rightarrow> service \<Rightarrow> AddCommand" where
  "add_set ty row sv =
     \<lparr>cmd_text = ''Add filter set'', cmd_id = 300,
      AddCommand.m_producer = Some 7, AddCommand.m_producerUuid = 5,
      m_type = ty, m_rows = [row], m_services = [sv]\<rparr>"


definition change_radius :: "bool \<Rightarrow> string \<Rightarrow> string \<Rightarrow> UndoParameterCommand" where
  "change_radius first old new =
     \<lparr>cmd_text = ''Change blur filter'', cmd_id = 303,
      m_filterController = Some 3, UndoParameterCommand.m_row = 0,
      UndoParameterCommand.m_producerUuid = 5, m_firstRedo = first,
      m_before = [''radius'' \<mapsto> old], m_after = [''radius'' \<mapsto> new]\<rparr>"


definition disable_crop :: DisableCommand where
  "disable_crop =
     \<lparr>cmd_text = ''Disable crop filter'', cmd_id = 302,
      DisableCommand.m_row = 1, DisableCommand.m_producer = Some 7,
      DisableCommand.m_producerUuid = 5, m_disabled = True\<rparr>"

definition remove_crop :: "QUuid \<Rightarrow> RemoveCommand" where
  "remove_crop u =
     \<lparr>cmd_text = ''Remove crop filter'', cmd_id = (-1),
      RemoveCommand.m_row = 1, RemoveCommand.m_producer = None,
      RemoveCommand.m_producerUuid = u, m_service = Some crop\<rparr>"


definition loader :: service where
  "loader = \<lparr>service_id = 13, props = [''_loader'' \<mapsto> ''1''], disabled = False\<rparr>"

definition example_env :: env where
  "example_env =
     \<lparr>adjustFilter = (\<lambda>f. (props f)(''adjusted'' \<mapsto> ''1'')),
      xml_producer = (\<lambda>x. if x = ''<producer/>'' then Some []
                          else if x = ''<producer><filter id=gain/></producer>'' then Some [gain]
                          else None),
      pasteFilters = (\<lambda>dst src. dst @ src),
      get_int = (\<lambda>f k. if props f k = Some ''1'' then 1 else 0)\<rparr>"

definition paste :: "string \<Rightarrow> string \<Rightarrow> PasteCommand" where
  "paste xml beforeXml =
     \<lparr>cmd_text = ''Paste filters'', cmd_id = (-1), m_xml = xml, m_beforeXml = beforeXml,
      PasteCommand.m_producerUuid = 5\<rparr>"

definition example_loaded :: app where
  "example_loaded = set_filters example_clip 7 [loader, blur, crop]"


definition add_pair :: AddCommand where
  "add_pair =
     \<lparr>cmd_text = ''Add filter set'', cmd_id = 300,
      AddCommand.m_producer = Some 7, AddCommand.m_producerUuid = 5,
      m_type = AddSetLast, m_rows = [2, 3], m_services = [gain, loader]\<rparr>"


definition move_crop :: "QUuid \<Rightarrow> MoveCommand" where
  "move_crop u =
     \<lparr>cmd_text = ''Move crop filter'', cmd_id = 301, m_fromRow = 1, m_toRow = 0,
      MoveCommand.m_producer = None, MoveCommand.m_producerUuid = u\<rparr>"

section \<open>Properties of the lookup\<close>

lemma find_append_case:
  "List.find P (xs @ ys) = (case List.find P xs of None \<Rightarrow> List.find P ys | Some x \<Rightarrow> Some x)"
  by (induction xs) simp_all

lemma on_start_eq:
  "on_start s p k a =
     (if uuid_match s (m_uuid p) (k, a) then (p\<lparr>FindProducerParser.m_producer := Some a\<rparr>, 1) else (p, 0))"
  by (cases k) (simp_all add: uuid_match_def on_start_producer_def)

lemma start_find:
  "start s p n =
     (case List.find (uuid_match s (m_uuid p)) (preorder n) of
        None \<Rightarrow> (p, 0)
      | Some x \<Rightarrow> (p\<lparr>FindProducerParser.m_producer := Some (snd x)\<rparr>, 1))"
  "start_children s p ns =
     (case List.find (uuid_match s (m_uuid p)) (preorder_list ns) of
        None \<Rightarrow> (p, 0)
      | Some x \<Rightarrow> (p\<lparr>FindProducerParser.m_producer := Some (snd x)\<rparr>, 1))"
proof (induction s p n and s p ns rule: start_start_children.induct)
  case (1 s p k a cs)
  show ?case
  proof (cases "uuid_match s (m_uuid p) (k, a)")
    case True
    then show ?thesis by (simp add: on_start_eq)
  next
    case False
    then have "on_start s p k a = (p, 0)" by (simp add: on_start_eq)
    with 1 False show ?thesis
      by (simp add: on_end_def split: option.splits)
  qed
next
  case (2 s p)
  show ?case by simp
next
  case (3 s p c cs)
  show ?case
  proof (cases "List.find (uuid_match s (m_uuid p)) (preorder c)")
    case None
    with 3 show ?thesis by (simp add: find_append_case split: option.splits)
  next
    case (Some x)
    with 3 show ?thesis by (simp add: find_append_case)
  qed
qed


lemma start_fst:
  "fst (start s p r) =
     (case List.find (uuid_match s (m_uuid p)) (preorder r) of
        None \<Rightarrow> p | Some x \<Rightarrow> p\<lparr>FindProducerParser.m_producer := Some (snd x)\<rparr>)"
  by (simp add: start_find split: option.splits)


section \<open>Properties of the state updates\<close>

lemma set_filters_fields [simp]:
  "QT_NO_DEBUG (set_filters s p fs) = QT_NO_DEBUG s"
  "isMultitrackValid (set_filters s p fs) = isMultitrackValid s"
  "multitrack (set_filters s p fs) = multitrack s"
  "playlist (set_filters s p fs) = playlist s"
  "isClip (set_filters s p fs) = isClip s"
  "producer (set_filters s p fs) = producer s"
  "savedProducer (set_filters s p fs) = savedProducer s"
  "events (set_filters s p fs) = events s"
  "filters (heap (set_filters s p fs) p) = fs"
  "q \<noteq> p \<Longrightarrow> heap (set_filters s p fs) q = heap s q"
  "uuid (heap (set_filters s p fs) q) = uuid (heap s q)"
  by (simp_all add: set_filters_def)

lemma emit_fields [simp]:
  "QT_NO_DEBUG (emit s ev) = QT_NO_DEBUG s"
  "isMultitrackValid (emit s ev) = isMultitrackValid s"
  "multitrack (emit s ev) = multitrack s"
  "playlist (emit s ev) = playlist s"
  "isClip (emit s ev) = isClip s"
  "producer (emit s ev) = producer s"
  "savedProducer (emit s ev) = savedProducer s"
  "events (emit s ev) = events s @ [ev]"
  "heap (emit s ev) = heap s"
  by (simp_all add: emit_def)

lemma uuid_match_set_filters [simp]: "uuid_match (set_filters s p fs) = uuid_match s"
  by (rule ext)+ (simp add: uuid_match_def MLT_uuid_def)

lemma uuid_match_emit [simp]: "uuid_match (emit s ev) = uuid_match s"
  by (rule ext)+ (simp add: uuid_match_def MLT_uuid_def)

lemma start_set_filters [simp]: "start (set_filters s p fs) = start s"
  by (rule ext)+ (simp add: start_find)

lemma start_emit [simp]: "start (emit s ev) = start s"
  by (rule ext)+ (simp add: start_find)

lemma findProducer_set_filters [simp]: "findProducer (set_filters s p fs) u = findProducer s u"
  unfolding findProducer_def start_set_filters set_filters_fields ..

lemma findProducer_emit [simp]: "findProducer (emit s ev) u = findProducer s u"
  unfolding findProducer_def start_emit emit_fields ..

lemma findProducer_QT_NO_DEBUG [simp]:
  "findProducer (s\<lparr>QT_NO_DEBUG := b\<rparr>) u = findProducer s u"
proof -
  have "uuid_match (s\<lparr>QT_NO_DEBUG := b\<rparr>) = uuid_match s"
    by (rule ext)+ (simp add: uuid_match_def MLT_uuid_def)
  then have "start (s\<lparr>QT_NO_DEBUG := b\<rparr>) = start s"
    by (intro ext) (simp add: start_find)
  moreover have "isMultitrackValid (s\<lparr>QT_NO_DEBUG := b\<rparr>) = isMultitrackValid s"
    "multitrack (s\<lparr>QT_NO_DEBUG := b\<rparr>) = multitrack s"
    "playlist (s\<lparr>QT_NO_DEBUG := b\<rparr>) = playlist s"
    "isClip (s\<lparr>QT_NO_DEBUG := b\<rparr>) = isClip s"
    "producer (s\<lparr>QT_NO_DEBUG := b\<rparr>) = producer s"
    "savedProducer (s\<lparr>QT_NO_DEBUG := b\<rparr>) = savedProducer s"
    by simp_all
  ultimately show ?thesis
    unfolding findProducer_def by (simp only:)
qed

lemma set_filters_same [simp]: "set_filters s p (filters (heap s p)) = s"
  by (simp add: set_filters_def)

lemma set_filters_twice [simp]: "set_filters (set_filters s p fs) p gs = set_filters s p gs"
  by (simp add: set_filters_def)

lemma inherit_dom: "key \<in> dom that \<Longrightarrow> inherit this that key = that key"
  by (auto simp: inherit_def map_add_def split: option.splits)


section \<open>Properties of the loops\<close>

lemma AddCommand_redo_loop_failure:
  "AddCommand_redo_loop fs rs svs \<noteq> Inl InvalidProducer"
  by (induction fs rs svs rule: AddCommand_redo_loop.induct) simp_all

lemma remove1_nth:
  "i < length fs \<Longrightarrow> \<forall>j<i. fs ! j \<noteq> fs ! i \<Longrightarrow> remove1 (fs ! i) fs = take i fs @ drop (Suc i) fs"
proof (induction fs arbitrary: i)
  case Nil
  then show ?case by simp
next
  case (Cons f fs)
  show ?case
  proof (cases i)
    case 0
    then show ?thesis by simp
  next
    case (Suc k)
    from Cons.prems(2) Suc have "f \<noteq> fs ! k" by auto
    moreover from Cons.prems(2) Suc have "\<forall>j<k. fs ! j \<noteq> fs ! k" by auto
    moreover from Cons.prems(1) Suc have "k < length fs" by simp
    ultimately show ?thesis using Cons.IH [of k] Suc by auto
  qed
qed

lemma PasteCommand_undo_loop_from:
  "i \<le> length fs \<Longrightarrow> \<forall>j<i. \<not> detachable e (fs ! j) \<Longrightarrow>
   PasteCommand_undo_loop e i fs = take i fs @ filter (\<lambda>f. \<not> detachable e f) (drop i fs)"
proof (induction e i fs rule: PasteCommand_undo_loop.induct)
  case (1 e i fs)
  show ?case
  proof (cases "i < length fs")
    case False
    with "1.prems" show ?thesis
      by (subst PasteCommand_undo_loop.simps) simp
  next
    case True
    note inside = this
    have split: "drop i fs = fs ! i # drop (Suc i) fs"
      using True by (simp add: Cons_nth_drop_Suc)
    show ?thesis
    proof (cases "detachable e (fs ! i)")
      case True
      with "1.prems"(2) have "\<forall>j<i. fs ! j \<noteq> fs ! i" by auto
      with inside have rm: "remove1 (fs ! i) fs = take i fs @ drop (Suc i) fs"
        by (rule remove1_nth)
      have len: "i \<le> length (remove1 (fs ! i) fs)"
        using inside by (simp add: rm)
      have keep: "\<forall>j<i. \<not> detachable e (remove1 (fs ! i) fs ! j)"
        using "1.prems"(2) inside by (simp add: rm nth_append)
      have "PasteCommand_undo_loop e i fs = PasteCommand_undo_loop e i (remove1 (fs ! i) fs)"
        using inside True by (subst PasteCommand_undo_loop.simps) simp
      also have "\<dots> = take i (remove1 (fs ! i) fs)
                      @ filter (\<lambda>f. \<not> detachable e f) (drop i (remove1 (fs ! i) fs))"
        using "1.IH"(1) [OF inside True len keep] .
      also have "\<dots> = take i fs @ filter (\<lambda>f. \<not> detachable e f) (drop (Suc i) fs)"
        using inside by (simp add: rm)
      finally show ?thesis using True by (simp add: split)
    next
      case False
      have keep: "\<forall>j<i + 1. \<not> detachable e (fs ! j)"
        using "1.prems"(2) False by (auto simp: less_Suc_eq)
      have len: "i + 1 \<le> length fs" using inside by simp
      have "PasteCommand_undo_loop e i fs = PasteCommand_undo_loop e (i + 1) fs"
        using inside False by (subst PasteCommand_undo_loop.simps) simp
      also have "\<dots> = take (i + 1) fs @ filter (\<lambda>f. \<not> detachable e f) (drop (i + 1) fs)"
        using "1.IH"(2) [OF inside False len keep] .
      finally show ?thesis using False inside by (simp add: split take_Suc_conv_app_nth)
    qed
  qed
qed

lemma PasteCommand_undo_loop_filter:
  "PasteCommand_undo_loop e 0 fs = filter (\<lambda>f. \<not> detachable e f) fs"
  using PasteCommand_undo_loop_from [of 0 fs e] by simp


lemma AddCommand_redo_loop_inserted:
  "length rs \<le> length svs \<Longrightarrow> AddCommand_redo_loop fs rs svs = Inr (inserted fs rs svs)"
  by (induction fs rs svs rule: AddCommand_redo_loop.induct) (simp_all add: inserted_def)




















lemma AddCommand_redo_resolved:
  assumes "AddCommand.m_producer c = Some p
           \<or> AddCommand.m_producer c = None \<and> findProducer s (AddCommand.m_producerUuid c) = Some p"
    and "length (m_rows c) \<le> length (m_services c)"
  shows "AddCommand_redo e c s =
           Inr (c\<lparr>AddCommand.m_producer := None\<rparr>,
                if m_type c = AddSetLast
                then emit (set_filters s p
                             (adjustFilters e (inserted (filters (heap s p)) (m_rows c) (m_services c))
                                (int (length (filters (heap s p))))))
                       (AdjustFilters p (int (length (filters (heap s p)))))
                else set_filters s p (inserted (filters (heap s p)) (m_rows c) (m_services c)))"
  using assms
  by (auto simp: AddCommand_redo_def Let_def filter_count_def AddCommand_redo_loop_inserted)


section \<open>The example data evaluated\<close>

lemma findProducer_example_clip: "findProducer example_clip 5 = Some 7"
  by (simp add: findProducer_def example_clip_def MLT_uuid_def on_start_producer_def)


lemma doGetService_example_clip:
  "doGetService (filters (heap example_clip 7)) 0 = Some blur"
  by (simp add: doGetService_def example_clip_def)


lemma filters_example_clip: "filters (heap example_clip 7) = [blur, crop]"
  by (simp add: example_clip_def)


lemma findProducer_example_clip_unknown: "findProducer example_clip 99 = None"
  by (simp add: findProducer_def example_clip_def MLT_uuid_def on_start_producer_def on_end_def)

lemma findProducer_example_loaded: "findProducer example_loaded 5 = Some 7"
  by (simp add: example_loaded_def findProducer_example_clip)

lemma detachable_example:
  "\<not> detachable example_env loader" "detachable example_env blur" "detachable example_env crop"
  "detachable example_env gain"
  by (simp_all add: detachable_def example_env_def loader_def blur_def crop_def gain_def
      kShotcutHiddenProperty_def)

section \<open>The claims\<close>

subsection \<open>C1: the lookup\<close>

text \<open>
  C1 as stated fails: the traversal visits the multitrack object, which carries the target
  20, but \<^verbatim>\<open>on_start_multitrack\<close> returns 0 without comparing, so the lookup returns the
  invalid producer where a comparison at every visited node would return that object.
\<close>

theorem findProducer_skips_multitrack:
  "findProducer example_graph 20 = None
   \<and> locate (uuid_match_any example_graph 20) (graph_roots example_graph) = Some 2"
  by (simp add: findProducer_def example_graph_def graph_roots_def uuid_match_any_def
      MLT_uuid_def on_start_producer_def on_end_def)

text \<open>
  C1, amended: for every identifier, \<^verbatim>\<open>findProducer\<close> tries the valid timeline, then the
  non-empty bin, then the open clip (the player's producer when it is a clip, else the
  saved producer, if valid); in each root it returns the first service in depth-first
  pre-order that is a producer, playlist, tractor or chain and carries the identifier
  (multitrack, filter, transition and link services are visited without being compared);
  it falls through to the next root only when a root holds no such service, and returns
  the invalid producer when no root does.
\<close>

theorem findProducer_locate:
  "findProducer s u = locate (uuid_match s u) (graph_roots s)"
proof -
  let ?m = "uuid_match s u"
  let ?f = "\<lambda>r. List.find ?m (preorder r)"
  obtain mt where mt: "multitrack s = mt" by simp
  obtain pl where pl: "playlist s = pl" by simp
  obtain cl where cl: "(if isClip s then producer s else savedProducer s) = cl" by simp
  show ?thesis
  proof (cases "isMultitrackValid s")
    case v: True
    show ?thesis
    proof (cases "?f mt")
      case (Some x)
      with v mt show ?thesis
        by (cases x) (simp add: findProducer_def Let_def start_fst graph_roots_def)
    next
      case n1: None
      show ?thesis
      proof (cases pl)
        case None
        with v mt n1 pl cl show ?thesis
          by (cases cl) (simp_all add: findProducer_def Let_def start_fst graph_roots_def split: option.splits)
      next
        case (Some b)
        show ?thesis
        proof (cases "?f b")
          case None
          with v mt n1 pl cl Some show ?thesis
          by (cases cl) (simp_all add: findProducer_def Let_def start_fst graph_roots_def split: option.splits)
        next
          case s2: (Some y)
          with v mt n1 pl cl Some show ?thesis
          by (cases cl; cases y) (simp_all add: findProducer_def Let_def start_fst graph_roots_def split: option.splits)
        qed
      qed
    qed
  next
    case v: False
      show ?thesis
      proof (cases pl)
        case None
        with v mt pl cl show ?thesis
          by (cases cl) (simp_all add: findProducer_def Let_def start_fst graph_roots_def split: option.splits)
      next
        case (Some b)
        show ?thesis
        proof (cases "?f b")
          case None
          with v mt pl cl Some show ?thesis
          by (cases cl) (simp_all add: findProducer_def Let_def start_fst graph_roots_def split: option.splits)
        next
          case s2: (Some y)
          with v mt pl cl Some show ?thesis
          by (cases cl; cases y) (simp_all add: findProducer_def Let_def start_fst graph_roots_def split: option.splits)
        qed
      qed
  qed
qed

theorem findProducer_locate_witness:
  "findProducer example_graph 70 = Some 7
   \<and> locate (uuid_match example_graph 70) (graph_roots example_graph) = Some 7"
  using findProducer_locate [of example_graph 70]
  by (simp add: example_graph_def graph_roots_def uuid_match_def MLT_uuid_def)
subsection \<open>C2: adding filters, undoing and adding again\<close>




subsection \<open>C3: applying and reversing a parameter change\<close>

text \<open>
  C3: the first \<^verbatim>\<open>redo\<close> of a parameter change (\<^verbatim>\<open>m_firstRedo\<close> still set) only clears
  the flag: the application state is left as it is. No \<^verbatim>\<open>redo\<close> returns a command with
  the flag set, so only the first is such a call. Every later \<^verbatim>\<open>redo\<close> resolves the
  producer by the command's UUID, overwrites the properties of the service at the command's
  row with the after snapshot and then calls the controller's \<^verbatim>\<open>onUndoOrRedo\<close> with that
  service; \<^verbatim>\<open>undo\<close> does the same with the before snapshot. Overwriting sets every
  property of the snapshot on the service. (The producer resolves, the controller pointer
  is not null and the row is a row of the chain.)
\<close>

theorem UndoParameterCommand_redo_undo:
  "(m_firstRedo c \<longrightarrow> UndoParameterCommand_redo c s = Inr (c\<lparr>m_firstRedo := False\<rparr>, s))
   \<and> (\<forall>c1 s1. UndoParameterCommand_redo c s = Inr (c1, s1) \<longrightarrow> \<not> m_firstRedo c1)
   \<and> (findProducer s (UndoParameterCommand.m_producerUuid c) = Some p
        \<and> m_filterController c = Some k
        \<and> doGetService (filters (heap s p)) (UndoParameterCommand.m_row c) = Some sv \<longrightarrow>
      (\<not> m_firstRedo c \<longrightarrow>
         UndoParameterCommand_redo c s =
           Inr (c,
                emit (set_filters s p
                        ((filters (heap s p))
                           [nat (UndoParameterCommand.m_row c) :=
                              sv\<lparr>props := inherit (props sv) (m_after c)\<rparr>]))
                  (OnUndoOrRedo k (Some (sv\<lparr>props := inherit (props sv) (m_after c)\<rparr>)))))
      \<and> UndoParameterCommand_undo c s =
           Inr (emit (set_filters s p
                        ((filters (heap s p))
                           [nat (UndoParameterCommand.m_row c) :=
                              sv\<lparr>props := inherit (props sv) (m_before c)\<rparr>]))
                  (OnUndoOrRedo k (Some (sv\<lparr>props := inherit (props sv) (m_before c)\<rparr>))))
      \<and> (\<forall>key \<in> dom (m_after c). inherit (props sv) (m_after c) key = m_after c key)
      \<and> (\<forall>key \<in> dom (m_before c). inherit (props sv) (m_before c) key = m_before c key))"
  by (auto simp add: UndoParameterCommand_redo_def UndoParameterCommand_undo_def
      restore_snapshot_def inherit_dom Let_def split: option.splits)

theorem UndoParameterCommand_redo_undo_witness:
  "UndoParameterCommand_redo (change_radius True ''2'' ''4'') example_clip
     = Inr (change_radius False ''2'' ''4'', example_clip)
   \<and> UndoParameterCommand_redo (change_radius False ''2'' ''4'') example_clip
     = Inr (change_radius False ''2'' ''4'',
            emit (set_filters example_clip 7 [blur\<lparr>props := [''radius'' \<mapsto> ''4'']\<rparr>, crop])
              (OnUndoOrRedo 3 (Some (blur\<lparr>props := [''radius'' \<mapsto> ''4'']\<rparr>))))
   \<and> UndoParameterCommand_undo (change_radius False ''2'' ''4'') example_clip
     = Inr (emit (set_filters example_clip 7 [blur\<lparr>props := [''radius'' \<mapsto> ''2'']\<rparr>, crop])
              (OnUndoOrRedo 3 (Some (blur\<lparr>props := [''radius'' \<mapsto> ''2'']\<rparr>))))"
proof -
  have resolved: "findProducer example_clip (UndoParameterCommand.m_producerUuid (change_radius False ''2'' ''4'')) = Some 7"
    using findProducer_example_clip by (simp add: change_radius_def)
  have row: "doGetService (filters (heap example_clip 7)) (UndoParameterCommand.m_row (change_radius False ''2'' ''4'')) = Some blur"
    using doGetService_example_clip by (simp add: change_radius_def)
  have fs: "filters (heap example_clip 7) = [blur, crop]"
    by (simp add: example_clip_def)
  have a: "inherit (props blur) [''radius'' \<mapsto> ''4''] = [''radius'' \<mapsto> ''4'']"
    "inherit (props blur) [''radius'' \<mapsto> ''2''] = [''radius'' \<mapsto> ''2'']"
    by (simp_all add: inherit_def blur_def)
  show ?thesis
    using UndoParameterCommand_redo_undo [of "change_radius True ''2'' ''4''" example_clip 7 3 blur]
      UndoParameterCommand_redo_undo [of "change_radius False ''2'' ''4''" example_clip 7 3 blur]
      resolved row
    by (simp add: change_radius_def fs a)
qed

subsection \<open>C4: merging parameter changes\<close>

text \<open>
  C4: \<^verbatim>\<open>mergeWith\<close> accepts exactly when the two commands have the same \<^verbatim>\<open>id()\<close> (as two
  parameter changes have), the same row, the same producer UUID and the same text. An
  accepted merge replaces this command's after snapshot by the other's and keeps its
  before snapshot: \<^verbatim>\<open>undo\<close> of the merged command writes the before snapshot of the
  first edit, and \<^verbatim>\<open>redo\<close> (after the first) writes the after snapshot of the second.
\<close>

theorem UndoParameterCommand_mergeWith_range:
  "UndoParameterCommand_mergeWith this that =
     (if cmd_id that = cmd_id this
         \<and> UndoParameterCommand.m_row that = UndoParameterCommand.m_row this
         \<and> UndoParameterCommand.m_producerUuid that = UndoParameterCommand.m_producerUuid this
         \<and> cmd_text that = cmd_text this
      then (True, this\<lparr>m_after := m_after that\<rparr>)
      else (False, this))
   \<and> (findProducer s (UndoParameterCommand.m_producerUuid this) = Some p
        \<and> m_filterController this = Some k
        \<and> doGetService (filters (heap s p)) (UndoParameterCommand.m_row this) = Some sv \<longrightarrow>
      UndoParameterCommand_undo (this\<lparr>m_after := m_after that\<rparr>) s =
           Inr (emit (set_filters s p
                        ((filters (heap s p))
                           [nat (UndoParameterCommand.m_row this) :=
                              sv\<lparr>props := inherit (props sv) (m_before this)\<rparr>]))
                  (OnUndoOrRedo k (Some (sv\<lparr>props := inherit (props sv) (m_before this)\<rparr>))))
      \<and> (\<not> m_firstRedo this \<longrightarrow>
         UndoParameterCommand_redo (this\<lparr>m_after := m_after that\<rparr>) s =
           Inr (this\<lparr>m_after := m_after that\<rparr>,
                emit (set_filters s p
                        ((filters (heap s p))
                           [nat (UndoParameterCommand.m_row this) :=
                              sv\<lparr>props := inherit (props sv) (m_after that)\<rparr>]))
                  (OnUndoOrRedo k (Some (sv\<lparr>props := inherit (props sv) (m_after that)\<rparr>))))))"
  by (auto simp add: UndoParameterCommand_mergeWith_def UndoParameterCommand_redo_def
      UndoParameterCommand_undo_def restore_snapshot_def Let_def)

theorem UndoParameterCommand_mergeWith_range_witness:
  "UndoParameterCommand_mergeWith (change_radius False ''2'' ''4'') (change_radius True ''4'' ''6'')
     = (True, change_radius False ''2'' ''6'')
   \<and> UndoParameterCommand_undo (change_radius False ''2'' ''6'') example_clip
     = Inr (emit (set_filters example_clip 7 [blur\<lparr>props := [''radius'' \<mapsto> ''2'']\<rparr>, crop])
              (OnUndoOrRedo 3 (Some (blur\<lparr>props := [''radius'' \<mapsto> ''2'']\<rparr>))))
   \<and> UndoParameterCommand_redo (change_radius False ''2'' ''6'') example_clip
     = Inr (change_radius False ''2'' ''6'',
            emit (set_filters example_clip 7 [blur\<lparr>props := [''radius'' \<mapsto> ''6'']\<rparr>, crop])
              (OnUndoOrRedo 3 (Some (blur\<lparr>props := [''radius'' \<mapsto> ''6'']\<rparr>))))"
proof -
  have resolved: "findProducer example_clip (UndoParameterCommand.m_producerUuid (change_radius False ''2'' ''4'')) = Some 7"
    using findProducer_example_clip by (simp add: change_radius_def)
  have row: "doGetService (filters (heap example_clip 7)) (UndoParameterCommand.m_row (change_radius False ''2'' ''4'')) = Some blur"
    using doGetService_example_clip by (simp add: change_radius_def)
  have fs: "filters (heap example_clip 7) = [blur, crop]"
    by (simp add: example_clip_def)
  have a: "inherit (props blur) [''radius'' \<mapsto> ''6''] = [''radius'' \<mapsto> ''6'']"
    "inherit (props blur) [''radius'' \<mapsto> ''2''] = [''radius'' \<mapsto> ''2'']"
    by (simp_all add: inherit_def blur_def)
  show ?thesis
    using UndoParameterCommand_mergeWith_range
      [of "change_radius False ''2'' ''4''" "change_radius True ''4'' ''6''" example_clip 7 3 blur]
      resolved row
    by (simp add: change_radius_def fs a)
qed
subsection \<open>C5: merging Add commands\<close>

text \<open>
  C5: an Add command accepts a merge exactly when both commands are members of a filter
  set: this command's mode is \<open>AddSet\<close> and the other's is \<open>AddSet\<close> or \<open>AddSetLast\<close>
  (two Add commands have the same \<^verbatim>\<open>id()\<close>; a command with another identifier, and the null
  pointer, are rejected before the modes are looked at). An accepted merge appends the
  other command's first row and first service to this command's lists and takes over the
  other command's mode. Every other pair, an \<open>AddSingle\<close> offered to an \<open>AddSet\<close> among
  them, is rejected and both commands are left as they were.
\<close>

theorem AddCommand_mergeWith_sets:
  "AddCommand_mergeWith this None = Inr (False, this, None)
   \<and> (m_rows that = r # rs \<and> m_services that = sv # svs \<longrightarrow>
      AddCommand_mergeWith this (Some that) =
        (if cmd_id that = cmd_id this
            \<and> m_type this = AddSet \<and> (m_type that = AddSet \<or> m_type that = AddSetLast)
         then Inr (True,
                   this\<lparr>m_type := m_type that,
                        m_rows := m_rows this @ [r],
                        m_services := m_services this @ [sv]\<rparr>,
                   Some that)
         else Inr (False, this, Some that)))"
  by (simp add: AddCommand_mergeWith_def)

theorem AddCommand_mergeWith_sets_witness:
  "AddCommand_mergeWith (add_set AddSet 2 gain) (Some (add_set AddSetLast 3 blur))
     = Inr (True,
            \<lparr>cmd_text = ''Add filter set'', cmd_id = 300,
             AddCommand.m_producer = Some 7, AddCommand.m_producerUuid = 5,
             m_type = AddSetLast, m_rows = [2, 3], m_services = [gain, blur]\<rparr>,
            Some (add_set AddSetLast 3 blur))
   \<and> AddCommand_mergeWith (add_set AddSet 2 gain) (Some (add_set AddSingle 3 blur))
     = Inr (False, add_set AddSet 2 gain, Some (add_set AddSingle 3 blur))"
  using AddCommand_mergeWith_sets [of "add_set AddSet 2 gain" "add_set AddSetLast 3 blur" 3 "[]" blur "[]"]
    AddCommand_mergeWith_sets [of "add_set AddSet 2 gain" "add_set AddSingle 3 blur" 3 "[]" blur "[]"]
  by (simp add: add_set_def)
subsection \<open>C6: the adjustment pass of a filter set\<close>

text \<open>
  C6 as stated fails: the pass does not start at the first inserted index but at the
  number of filters the producer had before the insertions. Inserting the last filter of
  a set at row 0 of a chain of two runs the pass from index 2: the inserted filter, at
  index 0, and the filter after it are not adjusted.
\<close>

theorem AddCommand_adjusts_from_old_count:
  "AddCommand_redo example_env (add_set AddSetLast 0 gain) example_clip
     = Inr ((add_set AddSetLast 0 gain)\<lparr>AddCommand.m_producer := None\<rparr>,
            emit (set_filters example_clip 7
                    [gain, blur, crop\<lparr>props := [''left'' \<mapsto> ''0'', ''adjusted'' \<mapsto> ''1'']\<rparr>])
              (AdjustFilters 7 2))
   \<and> m_rows (add_set AddSetLast 0 gain) = [0]"
  by (simp add: AddCommand_redo_def add_set_def filters_example_clip filter_count_def
      doAddService_def adjustFilters_def example_env_def crop_def)

text \<open>
  C6, amended: \<^verbatim>\<open>redo\<close> of an \<open>AddSetLast\<close> command calls \<^verbatim>\<open>MLT.adjustFilters\<close> exactly once,
  after all the insertions of the command were made, on the chain that holds them, and
  from the index that is the producer's filter count from before the insertions (the first
  inserted index when the set is appended to the chain); \<^verbatim>\<open>redo\<close> of an \<open>AddSingle\<close> or
  \<open>AddSet\<close> command and every \<^verbatim>\<open>undo\<close> make no such call. (The target resolves and there
  is a service for every row.)
\<close>

theorem AddCommand_adjusts_after_inserting:
  assumes "AddCommand.m_producer c = Some p
           \<or> AddCommand.m_producer c = None \<and> findProducer s (AddCommand.m_producerUuid c) = Some p"
    and "length (m_rows c) \<le> length (m_services c)"
  shows "AddCommand_redo e c s =
           Inr (c\<lparr>AddCommand.m_producer := None\<rparr>,
                if m_type c = AddSetLast
                then emit (set_filters s p
                             (adjustFilters e
                                (foldl (\<lambda>fs (r, sv). doAddService fs sv r) (filters (heap s p))
                                   (zip (m_rows c) (m_services c)))
                                (int (length (filters (heap s p))))))
                       (AdjustFilters p (int (length (filters (heap s p)))))
                else set_filters s p
                       (foldl (\<lambda>fs (r, sv). doAddService fs sv r) (filters (heap s p))
                          (zip (m_rows c) (m_services c))))
         \<and> (\<forall>s'. AddCommand_undo c s = Inr s' \<longrightarrow> events s' = events s)"
proof -
  have "\<forall>s'. AddCommand_undo c s = Inr s' \<longrightarrow> events s' = events s"
    by (auto simp: AddCommand_undo_def Let_def split: option.splits if_splits)
  with AddCommand_redo_resolved [OF assms, of e] show ?thesis
    by (simp add: inserted_def)
qed

theorem AddCommand_adjusts_after_inserting_witness:
  "AddCommand_redo example_env add_pair example_clip
     = Inr (add_pair\<lparr>AddCommand.m_producer := None\<rparr>,
            emit (set_filters example_clip 7
                    [blur, crop,
                     gain\<lparr>props := [''level'' \<mapsto> ''1'', ''adjusted'' \<mapsto> ''1'']\<rparr>,
                     loader\<lparr>props := [''_loader'' \<mapsto> ''1'', ''adjusted'' \<mapsto> ''1'']\<rparr>])
              (AdjustFilters 7 2))
   \<and> AddCommand_redo example_env (add_set AddSet 2 gain) example_clip
     = Inr ((add_set AddSet 2 gain)\<lparr>AddCommand.m_producer := None\<rparr>,
            set_filters example_clip 7 [blur, crop, gain])"
proof -
  have last: "AddCommand.m_producer add_pair = Some 7
           \<or> AddCommand.m_producer add_pair = None
             \<and> findProducer example_clip (AddCommand.m_producerUuid add_pair) = Some 7"
    "length (m_rows add_pair) \<le> length (m_services add_pair)"
    by (simp_all add: add_pair_def)
  have inner: "AddCommand.m_producer (add_set AddSet 2 gain) = Some 7
           \<or> AddCommand.m_producer (add_set AddSet 2 gain) = None
             \<and> findProducer example_clip (AddCommand.m_producerUuid (add_set AddSet 2 gain)) = Some 7"
    "length (m_rows (add_set AddSet 2 gain)) \<le> length (m_services (add_set AddSet 2 gain))"
    by (simp_all add: add_set_def)
  show ?thesis
    using AddCommand_adjusts_after_inserting [OF last, of example_env]
      AddCommand_adjusts_after_inserting [OF inner, of example_env]
    by (simp add: add_set_def add_pair_def filters_example_clip doAddService_def adjustFilters_def
        example_env_def gain_def loader_def)
qed
subsection \<open>C7: disabling and enabling a filter\<close>

text \<open>
  C7 as stated fails: \<^verbatim>\<open>undo\<close> does not restore the flag the filter had, it sets the
  opposite of the flag the command was built with. Disabling the crop filter, which is
  already disabled, and undoing that leaves it enabled.
\<close>

theorem DisableCommand_undo_not_prior:
  "DisableCommand_redo disable_crop example_clip
     = Inr (disable_crop\<lparr>DisableCommand.m_producer := None\<rparr>,
            set_filters example_clip 7 [blur, crop])
   \<and> DisableCommand_undo (disable_crop\<lparr>DisableCommand.m_producer := None\<rparr>)
         (set_filters example_clip 7 [blur, crop])
     = Inr (set_filters example_clip 7 [blur, crop\<lparr>disabled := False\<rparr>])
   \<and> disabled (filters (heap example_clip 7) ! 1) = True
   \<and> disabled (filters (heap (set_filters example_clip 7 [blur, crop\<lparr>disabled := False\<rparr>]) 7) ! 1) = False"
  using findProducer_example_clip
  by (simp add: DisableCommand_redo_def DisableCommand_undo_def disable_crop_def
      filters_example_clip doSetDisabled_def crop_def)

text \<open>
  C7, amended: for a command built with flag \<open>d\<close>, \<^verbatim>\<open>redo\<close> sets the disabled flag of the
  filter at the command's row to \<open>d\<close> and \<^verbatim>\<open>undo\<close> sets it to \<open>\<not> d\<close>; nothing else of the
  chain changes, so \<^verbatim>\<open>redo\<close> followed by \<^verbatim>\<open>undo\<close> gives back the chain from before exactly
  when the flag was \<open>\<not> d\<close> before (the command toggled it). The direct reference, while
  held, is the producer that the lookup finds, and the row is a row of the chain.
\<close>

theorem DisableCommand_redo_undo:
  assumes "DisableCommand.m_producer c = None \<or> DisableCommand.m_producer c = Some p"
    and "findProducer s (DisableCommand.m_producerUuid c) = Some p"
    and "0 \<le> DisableCommand.m_row c"
    and "nat (DisableCommand.m_row c) < length (filters (heap s p))"
  shows "DisableCommand_redo c s
           = Inr (c\<lparr>DisableCommand.m_producer := None\<rparr>,
                  set_filters s p
                    ((filters (heap s p))
                       [nat (DisableCommand.m_row c) :=
                          (filters (heap s p) ! nat (DisableCommand.m_row c))\<lparr>disabled := m_disabled c\<rparr>]))
         \<and> DisableCommand_undo (c\<lparr>DisableCommand.m_producer := None\<rparr>)
             (set_filters s p
                ((filters (heap s p))
                   [nat (DisableCommand.m_row c) :=
                      (filters (heap s p) ! nat (DisableCommand.m_row c))\<lparr>disabled := m_disabled c\<rparr>]))
           = Inr (set_filters s p
                    ((filters (heap s p))
                       [nat (DisableCommand.m_row c) :=
                          (filters (heap s p) ! nat (DisableCommand.m_row c))\<lparr>disabled := \<not> m_disabled c\<rparr>]))
         \<and> ((filters (heap s p))
               [nat (DisableCommand.m_row c) :=
                  (filters (heap s p) ! nat (DisableCommand.m_row c))\<lparr>disabled := \<not> m_disabled c\<rparr>]
             = filters (heap s p)
            \<longleftrightarrow> disabled (filters (heap s p) ! nat (DisableCommand.m_row c)) = (\<not> m_disabled c))"
proof -
  let ?fs = "filters (heap s p)"
  let ?i = "nat (DisableCommand.m_row c)"
  have redo: "DisableCommand_redo c s
           = Inr (c\<lparr>DisableCommand.m_producer := None\<rparr>,
                  set_filters s p (?fs[?i := (?fs ! ?i)\<lparr>disabled := m_disabled c\<rparr>]))"
    using assms by (auto simp: DisableCommand_redo_def doSetDisabled_def)
  have undo: "DisableCommand_undo (c\<lparr>DisableCommand.m_producer := None\<rparr>)
             (set_filters s p (?fs[?i := (?fs ! ?i)\<lparr>disabled := m_disabled c\<rparr>]))
           = Inr (set_filters s p (?fs[?i := (?fs ! ?i)\<lparr>disabled := \<not> m_disabled c\<rparr>]))"
    using assms by (simp add: DisableCommand_undo_def doSetDisabled_def)
  have "(?fs[?i := (?fs ! ?i)\<lparr>disabled := \<not> m_disabled c\<rparr>] = ?fs)
        = ((?fs ! ?i)\<lparr>disabled := \<not> m_disabled c\<rparr> = ?fs ! ?i)"
    using assms(4) by (metis list_update_id nth_list_update_eq)
  also have "\<dots> = (disabled (?fs ! ?i) = (\<not> m_disabled c))"
    by (cases "?fs ! ?i") auto
  finally show ?thesis using redo undo by simp
qed

theorem DisableCommand_redo_undo_witness:
  "DisableCommand_redo (disable_crop\<lparr>m_disabled := False\<rparr>) example_clip
     = Inr (disable_crop\<lparr>m_disabled := False, DisableCommand.m_producer := None\<rparr>,
            set_filters example_clip 7 [blur, crop\<lparr>disabled := False\<rparr>])
   \<and> DisableCommand_undo (disable_crop\<lparr>m_disabled := False, DisableCommand.m_producer := None\<rparr>)
         (set_filters example_clip 7 [blur, crop\<lparr>disabled := False\<rparr>])
     = Inr (set_filters example_clip 7 [blur, crop\<lparr>disabled := True\<rparr>])"
proof -
  have h: "DisableCommand.m_producer (disable_crop\<lparr>m_disabled := False\<rparr>) = None
        \<or> DisableCommand.m_producer (disable_crop\<lparr>m_disabled := False\<rparr>) = Some 7"
    "findProducer example_clip (DisableCommand.m_producerUuid (disable_crop\<lparr>m_disabled := False\<rparr>)) = Some 7"
    "0 \<le> DisableCommand.m_row (disable_crop\<lparr>m_disabled := False\<rparr>)"
    "nat (DisableCommand.m_row (disable_crop\<lparr>m_disabled := False\<rparr>)) < length (filters (heap example_clip 7))"
    using findProducer_example_clip by (simp_all add: disable_crop_def filters_example_clip)
  show ?thesis
    using DisableCommand_redo_undo [OF h]
    by (simp add: disable_crop_def filters_example_clip)
qed

subsection \<open>C8: a target that does not resolve\<close>

text \<open>
  C8 as stated fails for one call in every build: the first \<^verbatim>\<open>redo\<close> of a parameter change
  returns before it looks the producer up, so it is no hard stop even when no root holds the
  command's UUID.
\<close>

theorem first_redo_does_not_resolve:
  "findProducer example_clip 99 = None
   \<and> UndoParameterCommand_redo
        ((change_radius True ''2'' ''4'')\<lparr>UndoParameterCommand.m_producerUuid := 99\<rparr>) example_clip
     = Inr ((change_radius False ''2'' ''4'')\<lparr>UndoParameterCommand.m_producerUuid := 99\<rparr>,
            example_clip)"
  using findProducer_example_clip_unknown
  by (simp add: UndoParameterCommand_redo_def change_radius_def)

text \<open>
  C8, amended. Where \<^verbatim>\<open>Q_ASSERT\<close> is checked, \<^verbatim>\<open>redo\<close> and \<^verbatim>\<open>undo\<close> of the Add, Remove,
  Move, Disable and Paste commands, \<^verbatim>\<open>undo\<close> of a parameter change and every \<^verbatim>\<open>redo\<close> of a
  parameter change after the first stop at the producer assertion, with no state produced,
  exactly when the target does not resolve: the direct reference (where the command has
  one) is invalid and the lookup by UUID finds nothing. \<^verbatim>\<open>RemoveCommand::undo\<close> asserts its
  service first, so with an unresolved target it stops at one of its two assertions. Where
  \<^verbatim>\<open>Q_ASSERT\<close> is compiled out, no call stops at the producer assertion, and with an
  unresolved target the Move, Disable and parameter commands skip their work and return
  with the application state unchanged. (What the Add, Remove and Paste commands do there
  is left open: they hand the invalid producer to their collaborators.) In both builds, a
  call whose target resolves does not stop at the producer assertion, and the first
  \<^verbatim>\<open>redo\<close> of a parameter change never does.
\<close>

theorem unresolved_target_stops:
  "(\<not> QT_NO_DEBUG s \<longrightarrow>
      (AddCommand_redo e a s = Inl InvalidProducer
         \<longleftrightarrow> AddCommand.m_producer a = None \<and> findProducer s (AddCommand.m_producerUuid a) = None)
      \<and> (AddCommand_undo a s = Inl InvalidProducer
         \<longleftrightarrow> findProducer s (AddCommand.m_producerUuid a) = None)
      \<and> (RemoveCommand_redo r s = Inl InvalidProducer
         \<longleftrightarrow> RemoveCommand.m_producer r = None \<and> findProducer s (RemoveCommand.m_producerUuid r) = None)
      \<and> (findProducer s (RemoveCommand.m_producerUuid r) = None \<longrightarrow>
           RemoveCommand_undo r s = Inl (if m_service r = None then InvalidService else InvalidProducer))
      \<and> (findProducer s (RemoveCommand.m_producerUuid r) \<noteq> None \<longrightarrow>
           RemoveCommand_undo r s \<noteq> Inl InvalidProducer)
      \<and> (MoveCommand_redo m s = Inl InvalidProducer
         \<longleftrightarrow> MoveCommand.m_producer m = None \<and> findProducer s (MoveCommand.m_producerUuid m) = None)
      \<and> (MoveCommand_undo m s = Inl InvalidProducer
         \<longleftrightarrow> findProducer s (MoveCommand.m_producerUuid m) = None)
      \<and> (DisableCommand_redo d s = Inl InvalidProducer
         \<longleftrightarrow> DisableCommand.m_producer d = None \<and> findProducer s (DisableCommand.m_producerUuid d) = None)
      \<and> (DisableCommand_undo d s = Inl InvalidProducer
         \<longleftrightarrow> findProducer s (DisableCommand.m_producerUuid d) = None)
      \<and> (PasteCommand_redo e c s = Inl InvalidProducer
         \<longleftrightarrow> findProducer s (PasteCommand.m_producerUuid c) = None)
      \<and> (PasteCommand_undo e c s = Inl InvalidProducer
         \<longleftrightarrow> findProducer s (PasteCommand.m_producerUuid c) = None)
      \<and> (UndoParameterCommand_redo q s = Inl InvalidProducer
         \<longleftrightarrow> \<not> m_firstRedo q \<and> findProducer s (UndoParameterCommand.m_producerUuid q) = None)
      \<and> (UndoParameterCommand_undo q s = Inl InvalidProducer
         \<longleftrightarrow> findProducer s (UndoParameterCommand.m_producerUuid q) = None))
   \<and> (QT_NO_DEBUG s \<longrightarrow>
      AddCommand_redo e a s \<noteq> Inl InvalidProducer
      \<and> AddCommand_undo a s \<noteq> Inl InvalidProducer
      \<and> RemoveCommand_redo r s \<noteq> Inl InvalidProducer
      \<and> RemoveCommand_undo r s \<noteq> Inl InvalidProducer
      \<and> MoveCommand_redo m s \<noteq> Inl InvalidProducer
      \<and> MoveCommand_undo m s \<noteq> Inl InvalidProducer
      \<and> DisableCommand_redo d s \<noteq> Inl InvalidProducer
      \<and> DisableCommand_undo d s \<noteq> Inl InvalidProducer
      \<and> PasteCommand_redo e c s \<noteq> Inl InvalidProducer
      \<and> PasteCommand_undo e c s \<noteq> Inl InvalidProducer
      \<and> UndoParameterCommand_redo q s \<noteq> Inl InvalidProducer
      \<and> UndoParameterCommand_undo q s \<noteq> Inl InvalidProducer
      \<and> (MoveCommand.m_producer m = None \<and> findProducer s (MoveCommand.m_producerUuid m) = None \<longrightarrow>
           MoveCommand_redo m s = Inr (m, s))
      \<and> (findProducer s (MoveCommand.m_producerUuid m) = None \<longrightarrow> MoveCommand_undo m s = Inr s)
      \<and> (DisableCommand.m_producer d = None \<and> findProducer s (DisableCommand.m_producerUuid d) = None \<longrightarrow>
           DisableCommand_redo d s = Inr (d, s))
      \<and> (findProducer s (DisableCommand.m_producerUuid d) = None \<longrightarrow> DisableCommand_undo d s = Inr s)
      \<and> (findProducer s (UndoParameterCommand.m_producerUuid q) = None \<longrightarrow>
           UndoParameterCommand_redo q s = Inr (q\<lparr>m_firstRedo := False\<rparr>, s))
      \<and> (findProducer s (UndoParameterCommand.m_producerUuid q) = None \<longrightarrow>
           UndoParameterCommand_undo q s = Inr s))"
proof (intro conjI impI)
  assume asserted: "\<not> QT_NO_DEBUG s"
  show "AddCommand_redo e a s = Inl InvalidProducer
      \<longleftrightarrow> AddCommand.m_producer a = None \<and> findProducer s (AddCommand.m_producerUuid a) = None"
    using AddCommand_redo_loop_failure asserted
    by (auto simp: AddCommand_redo_def Let_def split: option.splits sum.splits)
  show "AddCommand_undo a s = Inl InvalidProducer
      \<longleftrightarrow> findProducer s (AddCommand.m_producerUuid a) = None"
    using asserted by (simp add: AddCommand_undo_def Let_def split: option.splits)
  show "RemoveCommand_redo r s = Inl InvalidProducer
      \<longleftrightarrow> RemoveCommand.m_producer r = None \<and> findProducer s (RemoveCommand.m_producerUuid r) = None"
    using asserted by (auto simp: RemoveCommand_redo_def Let_def split: option.splits)
  show "RemoveCommand_undo r s = Inl (if m_service r = None then InvalidService else InvalidProducer)"
    if "findProducer s (RemoveCommand.m_producerUuid r) = None"
    using asserted that by (auto simp: RemoveCommand_undo_def Let_def split: option.splits)
  show "RemoveCommand_undo r s \<noteq> Inl InvalidProducer"
    if "findProducer s (RemoveCommand.m_producerUuid r) \<noteq> None"
    using that by (auto simp: RemoveCommand_undo_def Let_def split: option.splits)
  show "MoveCommand_redo m s = Inl InvalidProducer
      \<longleftrightarrow> MoveCommand.m_producer m = None \<and> findProducer s (MoveCommand.m_producerUuid m) = None"
    using asserted by (auto simp: MoveCommand_redo_def Let_def split: option.splits)
  show "MoveCommand_undo m s = Inl InvalidProducer
      \<longleftrightarrow> findProducer s (MoveCommand.m_producerUuid m) = None"
    using asserted by (simp add: MoveCommand_undo_def Let_def split: option.splits)
  show "DisableCommand_redo d s = Inl InvalidProducer
      \<longleftrightarrow> DisableCommand.m_producer d = None \<and> findProducer s (DisableCommand.m_producerUuid d) = None"
    using asserted by (auto simp: DisableCommand_redo_def Let_def split: option.splits)
  show "DisableCommand_undo d s = Inl InvalidProducer
      \<longleftrightarrow> findProducer s (DisableCommand.m_producerUuid d) = None"
    using asserted by (simp add: DisableCommand_undo_def Let_def split: option.splits)
  show "PasteCommand_redo e c s = Inl InvalidProducer
      \<longleftrightarrow> findProducer s (PasteCommand.m_producerUuid c) = None"
    using asserted by (simp add: PasteCommand_redo_def Let_def split: option.splits)
  show "PasteCommand_undo e c s = Inl InvalidProducer
      \<longleftrightarrow> findProducer s (PasteCommand.m_producerUuid c) = None"
    using asserted by (simp add: PasteCommand_undo_def Let_def split: option.splits)
  show "UndoParameterCommand_redo q s = Inl InvalidProducer
      \<longleftrightarrow> \<not> m_firstRedo q \<and> findProducer s (UndoParameterCommand.m_producerUuid q) = None"
    using asserted by (simp add: UndoParameterCommand_redo_def Let_def split: option.splits)
  show "UndoParameterCommand_undo q s = Inl InvalidProducer
      \<longleftrightarrow> findProducer s (UndoParameterCommand.m_producerUuid q) = None"
    using asserted by (simp add: UndoParameterCommand_undo_def Let_def split: option.splits)
next
  assume compiled_out: "QT_NO_DEBUG s"
  show "AddCommand_redo e a s \<noteq> Inl InvalidProducer"
    using AddCommand_redo_loop_failure compiled_out
    by (auto simp: AddCommand_redo_def Let_def split: option.splits sum.splits)
  show "AddCommand_undo a s \<noteq> Inl InvalidProducer"
    using compiled_out by (simp add: AddCommand_undo_def Let_def split: option.splits)
  show "RemoveCommand_redo r s \<noteq> Inl InvalidProducer"
    using compiled_out by (auto simp: RemoveCommand_redo_def Let_def split: option.splits)
  show "RemoveCommand_undo r s \<noteq> Inl InvalidProducer"
    using compiled_out by (auto simp: RemoveCommand_undo_def Let_def split: option.splits)
  show "MoveCommand_redo m s \<noteq> Inl InvalidProducer"
    using compiled_out by (simp add: MoveCommand_redo_def Let_def)
  show "MoveCommand_undo m s \<noteq> Inl InvalidProducer"
    using compiled_out by (simp add: MoveCommand_undo_def Let_def)
  show "DisableCommand_redo d s \<noteq> Inl InvalidProducer"
    using compiled_out by (simp add: DisableCommand_redo_def Let_def)
  show "DisableCommand_undo d s \<noteq> Inl InvalidProducer"
    using compiled_out by (simp add: DisableCommand_undo_def Let_def)
  show "PasteCommand_redo e c s \<noteq> Inl InvalidProducer"
    using compiled_out by (simp add: PasteCommand_redo_def Let_def split: option.splits)
  show "PasteCommand_undo e c s \<noteq> Inl InvalidProducer"
    using compiled_out by (simp add: PasteCommand_undo_def Let_def split: option.splits)
  show "UndoParameterCommand_redo q s \<noteq> Inl InvalidProducer"
    using compiled_out by (simp add: UndoParameterCommand_redo_def Let_def split: option.splits)
  show "UndoParameterCommand_undo q s \<noteq> Inl InvalidProducer"
    using compiled_out by (simp add: UndoParameterCommand_undo_def Let_def split: option.splits)
  show "MoveCommand_redo m s = Inr (m, s)"
    if "MoveCommand.m_producer m = None \<and> findProducer s (MoveCommand.m_producerUuid m) = None"
    using compiled_out that by (simp add: MoveCommand_redo_def)
  show "MoveCommand_undo m s = Inr s"
    if "findProducer s (MoveCommand.m_producerUuid m) = None"
    using compiled_out that by (simp add: MoveCommand_undo_def)
  show "DisableCommand_redo d s = Inr (d, s)"
    if "DisableCommand.m_producer d = None \<and> findProducer s (DisableCommand.m_producerUuid d) = None"
    using compiled_out that by (simp add: DisableCommand_redo_def)
  show "DisableCommand_undo d s = Inr s"
    if "findProducer s (DisableCommand.m_producerUuid d) = None"
    using compiled_out that by (simp add: DisableCommand_undo_def)
  show "UndoParameterCommand_redo q s = Inr (q\<lparr>m_firstRedo := False\<rparr>, s)"
    if "findProducer s (UndoParameterCommand.m_producerUuid q) = None"
    using compiled_out that by (simp add: UndoParameterCommand_redo_def)
  show "UndoParameterCommand_undo q s = Inr s"
    if "findProducer s (UndoParameterCommand.m_producerUuid q) = None"
    using compiled_out that by (simp add: UndoParameterCommand_undo_def)
qed

theorem unresolved_target_stops_witness:
  "RemoveCommand_undo (remove_crop 99) example_clip = Inl InvalidProducer
   \<and> RemoveCommand_redo (remove_crop 99) example_clip = Inl InvalidProducer
   \<and> RemoveCommand_undo (remove_crop 5) example_clip \<noteq> Inl InvalidProducer
   \<and> RemoveCommand_redo (remove_crop 5) example_clip \<noteq> Inl InvalidProducer
   \<and> MoveCommand_redo (move_crop 99) example_clip = Inl InvalidProducer
   \<and> MoveCommand_redo (move_crop 99) (example_clip\<lparr>QT_NO_DEBUG := True\<rparr>)
       = Inr (move_crop 99, example_clip\<lparr>QT_NO_DEBUG := True\<rparr>)
   \<and> MoveCommand_undo (move_crop 99) (example_clip\<lparr>QT_NO_DEBUG := True\<rparr>)
       = Inr (example_clip\<lparr>QT_NO_DEBUG := True\<rparr>)"
proof -
  have asserted: "\<not> QT_NO_DEBUG example_clip"
    by (simp add: example_clip_def)
  have compiled_out: "QT_NO_DEBUG (example_clip\<lparr>QT_NO_DEBUG := True\<rparr>)"
    by simp
  have unknown: "findProducer (example_clip\<lparr>QT_NO_DEBUG := True\<rparr>) 99 = None"
    using findProducer_example_clip_unknown by simp
  show ?thesis
    using unresolved_target_stops [where r = "remove_crop 99" and m = "move_crop 99" and s = example_clip]
      unresolved_target_stops [where r = "remove_crop 5" and s = example_clip]
      unresolved_target_stops [where m = "move_crop 99" and s = "example_clip\<lparr>QT_NO_DEBUG := True\<rparr>"]
      findProducer_example_clip findProducer_example_clip_unknown asserted compiled_out unknown
    by (simp add: remove_crop_def move_crop_def)
qed

subsection \<open>C9: pasting an invalid or empty snapshot\<close>

text \<open>
  C9: when the incoming snapshot gives an invalid producer or a producer without filters,
  \<^verbatim>\<open>redo\<close> skips \<^verbatim>\<open>pasteFilters\<close>: it returns normally and the application state is the one
  from before, with only the \<^verbatim>\<open>filtersPasted\<close> signal added. When the before snapshot does,
  \<^verbatim>\<open>undo\<close> skips \<^verbatim>\<open>pasteFilters\<close> as well: it returns normally and the target keeps
  exactly the filters its removal loop leaves. (The target resolves.)
\<close>

theorem PasteCommand_empty_snapshot:
  "findProducer s (PasteCommand.m_producerUuid c) = Some p \<longrightarrow>
     ((xml_producer e (m_xml c) = None \<or> xml_producer e (m_xml c) = Some []) \<longrightarrow>
        PasteCommand_redo e c s = Inr (emit s (FiltersPasted p)))
     \<and> ((xml_producer e (m_beforeXml c) = None \<or> xml_producer e (m_beforeXml c) = Some []) \<longrightarrow>
        PasteCommand_undo e c s =
          Inr (emit (set_filters s p (filter (\<lambda>f. \<not> detachable e f) (filters (heap s p))))
                 (FiltersPasted p)))"
  by (auto simp: PasteCommand_redo_def PasteCommand_undo_def Let_def PasteCommand_undo_loop_filter)

theorem PasteCommand_empty_snapshot_witness:
  "PasteCommand_redo example_env (paste ''<producer/>'' ''not xml'') example_loaded
     = Inr (emit example_loaded (FiltersPasted 7))
   \<and> PasteCommand_undo example_env (paste ''<producer/>'' ''not xml'') example_loaded
     = Inr (emit (set_filters example_loaded 7 [loader]) (FiltersPasted 7))"
proof -
  have resolved: "findProducer example_loaded (PasteCommand.m_producerUuid (paste ''<producer/>'' ''not xml'')) = Some 7"
    using findProducer_example_loaded by (simp add: paste_def)
  have snapshots: "xml_producer example_env (m_xml (paste ''<producer/>'' ''not xml'')) = Some []"
    "xml_producer example_env (m_beforeXml (paste ''<producer/>'' ''not xml'')) = None"
    by (simp_all add: paste_def example_env_def)
  have chain: "filters (heap example_loaded 7) = [loader, blur, crop]"
    by (simp add: example_loaded_def)
  show ?thesis
    using PasteCommand_empty_snapshot [of example_loaded "paste ''<producer/>'' ''not xml''" 7 example_env]
      resolved snapshots
    by (simp add: chain detachable_example)
qed

subsection \<open>C10: the notification of a paste\<close>

text \<open>
  C10: every \<^verbatim>\<open>redo\<close> and every \<^verbatim>\<open>undo\<close> of a Paste command whose target resolves adds
  the \<^verbatim>\<open>filtersPasted\<close> signal exactly once, whatever the snapshot deserialises to; and
  \<^verbatim>\<open>undo\<close> always removes every attached filter that is neither a loader nor hidden
  before it pastes the before snapshot, also when that snapshot is invalid or empty.
\<close>

theorem PasteCommand_notifies_once:
  "findProducer s (PasteCommand.m_producerUuid c) = Some p \<longrightarrow>
     (\<exists>s1. PasteCommand_redo e c s = Inr s1 \<and> events s1 = events s @ [FiltersPasted p])
     \<and> (\<exists>s2. PasteCommand_undo e c s = Inr s2
              \<and> events s2 = events s @ [FiltersPasted p]
              \<and> filters (heap s2 p) =
                  (case xml_producer e (m_beforeXml c) of
                     None \<Rightarrow> filter (\<lambda>f. \<not> detachable e f) (filters (heap s p))
                   | Some src \<Rightarrow>
                       if src = [] then filter (\<lambda>f. \<not> detachable e f) (filters (heap s p))
                       else pasteFilters e (filter (\<lambda>f. \<not> detachable e f) (filters (heap s p))) src))"
  by (auto simp: PasteCommand_redo_def PasteCommand_undo_def Let_def PasteCommand_undo_loop_filter
      split: option.splits)

theorem PasteCommand_notifies_once_witness:
  "(\<exists>s1. PasteCommand_redo example_env (paste ''not xml'' ''<producer/>'') example_loaded = Inr s1
         \<and> events s1 = [FiltersPasted 7])
   \<and> (\<exists>s2. PasteCommand_undo example_env (paste ''not xml'' ''<producer/>'') example_loaded = Inr s2
         \<and> events s2 = [FiltersPasted 7]
         \<and> filters (heap s2 7) = [loader])"
proof -
  have resolved: "findProducer example_loaded (PasteCommand.m_producerUuid (paste ''not xml'' ''<producer/>'')) = Some 7"
    using findProducer_example_loaded by (simp add: paste_def)
  have chain: "filters (heap example_loaded 7) = [loader, blur, crop]"
    and none: "events example_loaded = []"
    by (simp_all add: example_loaded_def example_clip_def)
  have before: "xml_producer example_env (m_beforeXml (paste ''not xml'' ''<producer/>'')) = Some []"
    by (simp add: paste_def example_env_def)
  show ?thesis
    using PasteCommand_notifies_once [of example_loaded "paste ''not xml'' ''<producer/>''" 7 example_env]
      resolved
    by (simp add: chain none before detachable_example)
qed


end
